theory Spec2Isabelle
  imports Complex_Main "HOL-Library.AList" "HOL-Library.Sublist" "HOL-Library.Log_Nat"
begin

section \<open>Values of the JavaScript host\<close>

text \<open>
  A JavaScript string is modelled as a \<^typ>\<open>string\<close>: each \<^typ>\<open>char\<close> stands for one
  code unit below 256. The empty string is the only falsy string, so \<open>!s\<close> is \<open>s = []\<close>.

  A JavaScript number is NaN, an infinity with its sign (\<open>True\<close> for the positive one) or a
  finite value. The finite values are kept as rationals (every binary64 is one), and the two
  zeros of the host are one value: both satisfy \<open>x <= 0\<close>, and both are printed without a
  sign. The form only classifies a number (\<open>isNaN\<close> and the comparison with zero); the list
  adds and prints numbers, with the rounding of the host written out further down.
\<close>

datatype number = NaN | Infinity bool | Finite rat

fun isNaN :: "number \<Rightarrow> bool" where
  "isNaN NaN = True"
| "isNaN (Infinity b) = False"
| "isNaN (Finite x) = False"

text \<open>The comparison \<open>n <= 0\<close> of the host: false on NaN.\<close>

fun le_zero :: "number \<Rightarrow> bool" where
  "le_zero NaN = False"
| "le_zero (Infinity b) = (\<not> b)"
| "le_zero (Finite x) = (x \<le> 0)"

text \<open>White space of the host (tab, line feed, vertical tab, form feed, carriage return,
  space, no-break space), as \<open>String.prototype.trim\<close> and \<open>parseFloat\<close> skip it.\<close>

definition isWhiteSpace :: "char \<Rightarrow> bool" where
  "isWhiteSpace c = ((of_char c :: nat) \<in> {9, 10, 11, 12, 13, 32, 160})"

definition trim :: "string \<Rightarrow> string" where
  "trim s = rev (dropWhile isWhiteSpace (rev (dropWhile isWhiteSpace s)))"

subsection \<open>A decimal reading of \<open>parseFloat\<close>\<close>

text \<open>
  \<open>parseFloat\<close> belongs to the host, not to the repository. The components below take it as
  a parameter, and the theorems hold for every parser that answers NaN on the empty string.
  The function \<open>parseFloat_decimal\<close> follows the grammar of the host (leading white space, an
  optional sign, \<open>Infinity\<close> or the longest decimal literal, NaN when there is none) and
  gives the value of the literal before it is rounded to a binary64; it serves to run the
  components on concrete drafts.
\<close>

definition isDigit :: "char \<Rightarrow> bool" where
  "isDigit c = (48 \<le> (of_char c :: nat) \<and> (of_char c :: nat) \<le> 57)"

definition digitsVal :: "string \<Rightarrow> nat" where
  "digitsVal ds = foldl (\<lambda>n c. 10 * n + (of_char c - 48)) 0 ds"

definition exponentPart :: "string \<Rightarrow> int" where
  "exponentPart s =
     (case s of
        [] \<Rightarrow> 0
      | e # r \<Rightarrow>
          if e = CHR ''e'' \<or> e = CHR ''E'' then
            (let neg = (case r of [] \<Rightarrow> False | c # _ \<Rightarrow> c = CHR ''-'');
                 ds = (case r of [] \<Rightarrow> []
                       | c # r' \<Rightarrow> if c = CHR ''-'' \<or> c = CHR ''+'' then r' else r);
                 digs = takeWhile isDigit ds
             in if digs = [] then 0
                else if neg then - int (digitsVal digs) else int (digitsVal digs))
          else 0)"

definition scale10 :: "rat \<Rightarrow> int \<Rightarrow> rat" where
  "scale10 x e = (if 0 \<le> e then x * 10 ^ nat e else x / 10 ^ nat (- e))"

definition unsignedLiteral :: "string \<Rightarrow> rat option" where
  "unsignedLiteral s =
     (let ip = takeWhile isDigit s;
          r1 = dropWhile isDigit s;
          dot = (case r1 of [] \<Rightarrow> False | c # _ \<Rightarrow> c = CHR ''.'');
          fp = (if dot then takeWhile isDigit (tl r1) else []);
          r2 = (if dot then dropWhile isDigit (tl r1) else r1)
      in if ip = [] \<and> fp = [] then None
         else Some (scale10 (of_nat (digitsVal (ip @ fp)))
                      (exponentPart r2 - int (length fp))))"

definition parseFloat_decimal :: "string \<Rightarrow> number" where
  "parseFloat_decimal s =
     (let t = dropWhile isWhiteSpace s;
          neg = (case t of [] \<Rightarrow> False | c # _ \<Rightarrow> c = CHR ''-'');
          u = (case t of [] \<Rightarrow> []
               | c # r \<Rightarrow> if c = CHR ''-'' \<or> c = CHR ''+'' then r else t)
      in if take 8 u = ''Infinity'' then Infinity (\<not> neg)
         else (case unsignedLiteral u of
                 None \<Rightarrow> NaN
               | Some x \<Rightarrow> Finite (if neg then - x else x)))"

section \<open>The shared data shape\<close>

text \<open>
  \<open>ExpenseCategory\<close> is a union of five string literals; at run time a category is the
  string that a \<open>select\<close> element hands over, so it is kept as a string and the union as the
  list of its members.
\<close>

definition ExpenseCategory :: "string list" where
  "ExpenseCategory = [''Food'', ''Transportation'', ''Entertainment'', ''Shopping'', ''Other'']"

section \<open>The entry editor (ExpenseForm)\<close>

text \<open>The four inputs of the form, by their \<open>name\<close> attribute.\<close>

datatype fieldName = Description | Amount | Category | Date

record ExpenseFormData =
  description :: string
  amount :: string
  category :: string
  date :: string

text \<open>
  \<open>FormErrors\<close> is an object with optional keys. It is an association list in insertion
  order: \<open>map fst\<close> is \<open>Object.keys\<close>, and a key may be present with the value
  \<open>undefined\<close> (\<open>None\<close>), which is what the change handler writes.
\<close>

type_synonym FormErrors = "(fieldName \<times> string option) list"

text \<open>The property read \<open>errors[name]\<close>: \<open>undefined\<close> for a missing key.\<close>

definition getError :: "FormErrors \<Rightarrow> fieldName \<Rightarrow> string option" where
  "getError errs name = (case map_of errs name of None \<Rightarrow> None | Some v \<Rightarrow> v)"

text \<open>Truthiness of \<open>errors[name]\<close>: a non-empty string.\<close>

definition truthy :: "string option \<Rightarrow> bool" where
  "truthy v = (case v of None \<Rightarrow> False | Some s \<Rightarrow> s \<noteq> [])"

record validation =
  isValid :: bool
  validationErrors :: FormErrors

definition validateExpenseForm :: "(string \<Rightarrow> number) \<Rightarrow> ExpenseFormData \<Rightarrow> validation" where
  "validateExpenseForm parseFloat data =
     (let e0 = [];
          e1 = (if trim (description data) = []
                then AList.update Description (Some ''Description is required'') e0 else e0);
          amt = parseFloat (amount data);
          e2 = (if isNaN amt \<or> le_zero amt
                then AList.update Amount (Some ''Amount must be a positive number'') e1 else e1);
          e3 = (if category data = []
                then AList.update Category (Some ''Category is required'') e2 else e2);
          e4 = (if date data = []
                then AList.update Date (Some ''Date is required'') e3 else e3)
      in \<lparr>isValid = (length (map fst e4) = 0), validationErrors = e4\<rparr>)"

text \<open>
  The state of the component: the two \<open>useState\<close> cells. What a handler does to the outside
  is the list of its effects, in order.
\<close>

record FormState =
  formData :: ExpenseFormData
  errors :: FormErrors

record ExpensePayload =
  payload_description :: string
  payload_amount :: number
  payload_category :: string
  payload_date :: string

datatype effect = PreventDefault | Alert string | OnSubmit ExpensePayload

text \<open>The draft that \<open>useState\<close> starts from and that a successful submission restores;
  \<open>today\<close> is the value of \<open>new Date().toISOString().split('T')[0]\<close>.\<close>

definition defaultFormData :: "string \<Rightarrow> ExpenseFormData" where
  "defaultFormData today =
     \<lparr>description = [], amount = [], category = ''Food'', date = today\<rparr>"

definition initialState :: "string \<Rightarrow> FormState" where
  "initialState today = \<lparr>formData = defaultFormData today, errors = []\<rparr>"

fun setField :: "fieldName \<Rightarrow> string \<Rightarrow> ExpenseFormData \<Rightarrow> ExpenseFormData" where
  "setField Description v d = d\<lparr>description := v\<rparr>"
| "setField Amount v d = d\<lparr>amount := v\<rparr>"
| "setField Category v d = d\<lparr>category := v\<rparr>"
| "setField Date v d = d\<lparr>date := v\<rparr>"

definition handleInputChange :: "fieldName \<Rightarrow> string \<Rightarrow> FormState \<Rightarrow> FormState" where
  "handleInputChange name v st =
     \<lparr>formData = setField name v (formData st),
      errors = (if truthy (getError (errors st) name)
                then AList.update name None (errors st) else errors st)\<rparr>"

definition handleSubmit ::
  "(string \<Rightarrow> number) \<Rightarrow> string \<Rightarrow> FormState \<Rightarrow> FormState \<times> effect list" where
  "handleSubmit parseFloat today st =
     (let v = validateExpenseForm parseFloat (formData st) in
      if \<not> isValid v then (st\<lparr>errors := validationErrors v\<rparr>, [PreventDefault])
      else
        let st1 = st\<lparr>errors := []\<rparr> in
        if trim (description (formData st)) = [] \<or> amount (formData st) = []
           \<or> date (formData st) = []
        then (st1, [PreventDefault, Alert ''Please fill in all required fields''])
        else
          let amt = parseFloat (amount (formData st)) in
          if le_zero amt then (st1, [PreventDefault, Alert ''Amount must be greater than 0''])
          else (st1\<lparr>formData := defaultFormData today\<rparr>,
                [PreventDefault,
                 OnSubmit \<lparr>payload_description = trim (description (formData st)),
                           payload_amount = amt,
                           payload_category = category (formData st),
                           payload_date = date (formData st)\<rparr>]))"

text \<open>The calls of the submit callback and of \<open>alert\<close> among the effects of a handler.\<close>

definition onSubmitCalls :: "effect list \<Rightarrow> ExpensePayload list" where
  "onSubmitCalls effs = concat (map (\<lambda>e. case e of OnSubmit p \<Rightarrow> [p] | _ \<Rightarrow> []) effs)"

definition alerts :: "effect list \<Rightarrow> string list" where
  "alerts effs = concat (map (\<lambda>e. case e of Alert m \<Rightarrow> [m] | _ \<Rightarrow> []) effs)"

text \<open>Typing a whole draft into the form: one change event for each input.\<close>

definition enterDraft :: "ExpenseFormData \<Rightarrow> FormState \<Rightarrow> FormState" where
  "enterDraft d st =
     handleInputChange Date (date d)
       (handleInputChange Category (category d)
         (handleInputChange Amount (amount d)
           (handleInputChange Description (description d) st)))"

text \<open>The options of the category selector of the form, as the markup lists them.\<close>

definition categoryOptions :: "string list" where
  "categoryOptions = [''Food'', ''Transportation'', ''Entertainment'', ''Shopping'', ''Other'']"

subsection \<open>The validation rules as the specification words them\<close>

text \<open>
  The four rules in the words of the specification, to be compared with what
  \<open>validateExpenseForm\<close> computes: the description is non-empty after trimming, the amount
  parses to a positive number, the category is present, the date is present.
\<close>

fun positive :: "number \<Rightarrow> bool" where
  "positive NaN = False"
| "positive (Infinity b) = b"
| "positive (Finite x) = (0 < x)"

fun rule_violated :: "(string \<Rightarrow> number) \<Rightarrow> ExpenseFormData \<Rightarrow> fieldName \<Rightarrow> bool" where
  "rule_violated parseFloat d Description = (trim (description d) = [])"
| "rule_violated parseFloat d Amount = (\<not> positive (parseFloat (amount d)))"
| "rule_violated parseFloat d Category = (category d = [])"
| "rule_violated parseFloat d Date = (date d = [])"

fun message :: "fieldName \<Rightarrow> string" where
  "message Description = ''Description is required''"
| "message Amount = ''Amount must be a positive number''"
| "message Category = ''Category is required''"
| "message Date = ''Date is required''"

section \<open>The collection view (ExpenseList)\<close>

text \<open>
  An expense as the list reads it: the five required properties of \<open>ExpenseCardProps\<close>. The
  optional display properties are not read by the derivations of the list.
\<close>

record Expense =
  expense_id :: int
  expense_description :: string
  expense_amount :: number
  expense_category :: string
  expense_date :: string

text \<open>The property \<open>expenses\<close> handed down by the owner, and the one \<open>useState\<close> cell.\<close>

record ExpenseListState =
  expenses :: "Expense list"
  filterCategory :: string

definition filteredExpenses :: "Expense list \<Rightarrow> string \<Rightarrow> Expense list" where
  "filteredExpenses es sel =
     (if sel = ''All'' then es else filter (\<lambda>expense. expense_category expense = sel) es)"

text \<open>\<open>reduce\<close> from the left, starting at 0; \<open>add\<close> is the addition of the host.\<close>

definition filteredTotal :: "(number \<Rightarrow> number \<Rightarrow> number) \<Rightarrow> Expense list \<Rightarrow> string \<Rightarrow> number" where
  "filteredTotal add es sel =
     foldl (\<lambda>sum expense. add sum (expense_amount expense)) (Finite 0) (filteredExpenses es sel)"

definition handleCategoryChange :: "string \<Rightarrow> ExpenseListState \<Rightarrow> ExpenseListState" where
  "handleCategoryChange v s = s\<lparr>filterCategory := v\<rparr>"

text \<open>The options of the filter control, as the markup lists them.\<close>

definition filterOptions :: "string list" where
  "filterOptions = [''All'', ''Food'', ''Transportation'', ''Entertainment'', ''Other'']"

text \<open>What the list shows: the total as \<open>toFixed(2)\<close> prints it, the count, and either the
  placeholder or one card for each visible expense.\<close>

datatype cardArea = Placeholder string | Cards "Expense list"

record ExpenseListView =
  shownTotal :: string
  shownCount :: nat
  shownCards :: cardArea

definition renderList ::
  "(number \<Rightarrow> number \<Rightarrow> number) \<Rightarrow> (number \<Rightarrow> string) \<Rightarrow> ExpenseListState \<Rightarrow> ExpenseListView" where
  "renderList add toFixed2 s =
     (let visible = filteredExpenses (expenses s) (filterCategory s) in
      \<lparr>shownTotal = toFixed2 (filteredTotal add (expenses s) (filterCategory s)),
       shownCount = length visible,
       shownCards = (if length visible = 0
                     then Placeholder ''No expenses found. Add some expenses to get started!''
                     else Cards visible)\<rparr>)"

text \<open>The number of entries of a collection whose category is the selection.\<close>

definition countMatching :: "Expense list \<Rightarrow> string \<Rightarrow> nat" where
  "countMatching es sel = sum_list (map (\<lambda>e. if expense_category e = sel then 1 else 0) es)"

section \<open>Arithmetic and printing of the host\<close>

text \<open>
  The total of the list is computed with the addition of the host and printed with
  \<open>toFixed(2)\<close>. A finite number of the host is a binary64: a rational \<open>m * 2 ^ p\<close> with
  \<open>\<bar>m\<bar> < 2 ^ 53\<close> and \<open>- 1074 \<le> p\<close>, below \<open>2 ^ 1024\<close> in magnitude. The sum of two finite
  numbers is their exact sum rounded to the nearest binary64, ties to the even significand,
  and an infinity when the rounded value reaches \<open>2 ^ 1024\<close>.
\<close>

definition pow2 :: "int \<Rightarrow> rat" where
  "pow2 e = (if 0 \<le> e then 2 ^ nat e else 1 / 2 ^ nat (- e))"

text \<open>The exponent \<open>e\<close> with \<open>2 ^ e \<le> a < 2 ^ (e + 1)\<close>, for a positive \<open>a\<close>.\<close>

definition ilog2 :: "rat \<Rightarrow> int" where
  "ilog2 a =
     (let d = bitlen (fst (quotient_of a)) - bitlen (snd (quotient_of a))
      in if pow2 d \<le> a then d else d - 1)"

definition roundHalfEven :: "rat \<Rightarrow> int" where
  "roundHalfEven m =
     (let n = \<lfloor>m\<rfloor>; r = m - of_int n
      in if r < 1 / 2 then n else if 1 / 2 < r then n + 1 else if even n then n else n + 1)"

definition round64 :: "rat \<Rightarrow> number" where
  "round64 q =
     (if q = 0 then Finite 0
      else
        let a = \<bar>q\<bar>;
            p = max (ilog2 a - 52) (- 1074);
            v = of_int (roundHalfEven (a / pow2 p)) * pow2 p
        in if pow2 1024 \<le> v then Infinity (0 < q) else Finite (if q < 0 then - v else v))"

text \<open>The operator \<open>+\<close> of the host on two numbers.\<close>

fun add64 :: "number \<Rightarrow> number \<Rightarrow> number" where
  "add64 (Finite x) (Finite y) = round64 (x + y)"
| "add64 (Finite x) (Infinity b) = Infinity b"
| "add64 (Infinity a) (Finite y) = Infinity a"
| "add64 (Infinity a) (Infinity b) = (if a = b then Infinity a else NaN)"
| "add64 NaN y = NaN"
| "add64 x NaN = NaN"

text \<open>The decimal digits of a natural number (given as an integer), without leading zeros.\<close>

function decimalDigits :: "int \<Rightarrow> string" where
  "decimalDigits n =
     (if n < 10 then [char_of (48 + n)]
      else decimalDigits (n div 10) @ [char_of (48 + n mod 10)])"
  by pat_completeness auto
termination
  by (relation "measure nat") auto

declare decimalDigits.simps [simp del]

text \<open>
  A rational printed with exactly two decimals, as \<open>toFixed(2)\<close> does below \<open>10 ^ 21\<close>: the
  sign, then the integer \<open>n\<close> nearest to a hundred times the magnitude (the larger one of
  two), padded to three digits, with the point before its last two digits.
\<close>

definition twoDecimals :: "rat \<Rightarrow> string" where
  "twoDecimals q =
     (let x = \<bar>q\<bar>;
          n = \<lfloor>x * 100 + 1 / 2\<rfloor>;
          m = decimalDigits n;
          m' = (if length m \<le> 2 then replicate (3 - length m) CHR ''0'' @ m else m);
          k = length m'
      in (if q < 0 then ''-'' else []) @ take (k - 2) m' @ ''.'' @ drop (k - 2) m')"

text \<open>
  \<open>Number::toString\<close> of the host for a binary64 \<open>x\<close> of at least \<open>10 ^ 21\<close>: the digits of
  the shortest integer \<open>s\<close> (of \<open>k\<close> digits) for which \<open>s * 10 ^ (n - k)\<close> rounds to \<open>x\<close>,
  the one nearest to \<open>x\<close> when two of them do, in exponential notation. \<open>digitCandidates\<close>
  lists, for a number of digits \<open>k\<close>, the pairs \<open>(s, n)\<close> that round to \<open>x\<close>.
\<close>

definition digitCandidates :: "rat \<Rightarrow> nat \<Rightarrow> (int \<times> nat) list" where
  "digitCandidates x k =
     (let d = length (decimalDigits \<lfloor>x\<rfloor>) in
      concat (map (\<lambda>n.
        (let s0 = \<lfloor>x\<rfloor> div 10 ^ (n - k) in
         map (\<lambda>s. (s, n))
           (filter (\<lambda>s. 10 ^ (k - 1) \<le> s \<and> s < 10 ^ k
                       \<and> round64 (of_int s * 10 ^ (n - k)) = Finite x) [s0, s0 + 1])))
        [d, d + 1]))"

definition nearestCandidate :: "rat \<Rightarrow> nat \<Rightarrow> (int \<times> nat) list \<Rightarrow> (int \<times> nat)" where
  "nearestCandidate x k cs =
     foldl (\<lambda>best c.
        if \<bar>of_int (fst c) * 10 ^ (snd c - k) - x\<bar> < \<bar>of_int (fst best) * 10 ^ (snd best - k) - x\<bar>
        then c else best) (hd cs) (tl cs)"

definition exponentialString :: "rat \<Rightarrow> string" where
  "exponentialString x =
     (case find (\<lambda>k. digitCandidates x k \<noteq> []) [1..<18] of
        None \<Rightarrow> decimalDigits \<lfloor>x\<rfloor>
      | Some k \<Rightarrow>
          (let c = nearestCandidate x k (digitCandidates x k);
               ds = decimalDigits (fst c)
           in (if k = 1 then ds else hd ds # ''.'' @ tl ds) @ ''e+'' @ decimalDigits (int (snd c) - 1)))"

text \<open>\<open>Number.prototype.toFixed\<close> with two fraction digits.\<close>

fun toFixed2 :: "number \<Rightarrow> string" where
  "toFixed2 NaN = ''NaN''"
| "toFixed2 (Infinity b) = (if b then ''Infinity'' else ''-Infinity'')"
| "toFixed2 (Finite q) =
     (if 10 ^ 21 \<le> \<bar>q\<bar> then (if q < 0 then ''-'' else []) @ exponentialString \<bar>q\<bar>
      else twoDecimals q)"


section \<open>Properties of the entry editor\<close>

subsection \<open>Auxiliary facts\<close>

lemma not_positive_iff: "(isNaN n \<or> le_zero n) = (\<not> positive n)"
  by (cases n) auto

lemma all_fields: "(\<forall>f. P f) = (P Description \<and> P Amount \<and> P Category \<and> P Date)"
  by (metis fieldName.exhaust)

lemma violated_set:
  "set (filter (rule_violated pf d) [Description, Amount, Category, Date]) = {f. rule_violated pf d f}"
proof -
  have "set [Description, Amount, Category, Date] = UNIV"
    using fieldName.exhaust by auto
  then show ?thesis
    unfolding set_filter by blast
qed

lemma validationErrors_eq:
  "validationErrors (validateExpenseForm pf d) =
     map (\<lambda>f. (f, Some (message f)))
       (filter (rule_violated pf d) [Description, Amount, Category, Date])"
  by (simp add: validateExpenseForm_def not_positive_iff)

lemma isValid_eq:
  "isValid (validateExpenseForm pf d) = (validationErrors (validateExpenseForm pf d) = [])"
  by (simp add: validateExpenseForm_def Let_def)

lemma isValid_iff: "isValid (validateExpenseForm pf d) = (\<forall>f. \<not> rule_violated pf d f)"
  by (simp add: isValid_eq validationErrors_eq all_fields)

lemma getError_validation:
  "getError (validationErrors (validateExpenseForm pf d)) f =
     (if rule_violated pf d f then Some (message f) else None)"
  by (cases f) (simp_all add: getError_def validationErrors_eq)

lemma category_in_enum_nonempty: "c \<in> set ExpenseCategory \<Longrightarrow> c \<noteq> []"
  by (auto simp: ExpenseCategory_def)

lemma handleSubmit_valid:
  assumes "pf [] = NaN" and "isValid (validateExpenseForm pf (formData st))"
  shows "handleSubmit pf today st =
     (\<lparr>formData = defaultFormData today, errors = []\<rparr>,
      [PreventDefault,
       OnSubmit \<lparr>payload_description = trim (description (formData st)),
                 payload_amount = pf (amount (formData st)),
                 payload_category = category (formData st),
                 payload_date = date (formData st)\<rparr>])"
proof -
  from assms(2) have nv: "\<not> rule_violated pf (formData st) f" for f
    by (simp add: isValid_iff)
  from nv [of Description] have d: "trim (description (formData st)) \<noteq> []" by simp
  from nv [of Amount] have p: "positive (pf (amount (formData st)))" by simp
  from nv [of Date] have dt: "date (formData st) \<noteq> []" by simp
  from p assms(1) have a: "amount (formData st) \<noteq> []" by auto
  from p have l: "\<not> le_zero (pf (amount (formData st)))"
    using not_positive_iff by blast
  show ?thesis using assms(2) d a dt l
    by (simp add: handleSubmit_def Let_def)
qed

lemma handleSubmit_invalid:
  assumes "\<not> isValid (validateExpenseForm pf (formData st))"
  shows "handleSubmit pf today st =
     (st\<lparr>errors := validationErrors (validateExpenseForm pf (formData st))\<rparr>, [PreventDefault])"
  using assms by (simp add: handleSubmit_def Let_def)

lemma formData_enterDraft: "formData (enterDraft d st) = d"
  by (simp add: enterDraft_def handleInputChange_def)

lemma parseFloat_decimal_empty: "parseFloat_decimal [] = NaN"
  by (simp add: parseFloat_decimal_def unsignedLiteral_def)

lemmas parseFloat_decimal_defs =
  parseFloat_decimal_def unsignedLiteral_def exponentPart_def scale10_def digitsVal_def
  isDigit_def isWhiteSpace_def

lemma parseFloat_decimal_10: "parseFloat_decimal ''10'' = Finite 10"
  by (simp add: parseFloat_decimal_defs)

lemma parseFloat_decimal_minus_3: "parseFloat_decimal ''-3'' = Finite (- 3)"
  by (simp add: parseFloat_decimal_defs)

lemma parseFloat_decimal_4_50: "parseFloat_decimal ''4.50'' = Finite (9 / 2)"
  by (simp add: parseFloat_decimal_defs)

lemma trim_Coffee: "trim ''  Coffee '' = ''Coffee''"
  by (simp add: trim_def isWhiteSpace_def)

lemma trim_Bus: "trim ''Bus'' = ''Bus''"
  by (simp add: trim_def isWhiteSpace_def)

lemma trim_blank: "trim ''  '' = []"
  by (simp add: trim_def isWhiteSpace_def)

subsection \<open>Validation\<close>

text \<open>
  C10. For every draft the two results of the validation pass agree: \<open>isValid\<close> is true
  exactly when the error map has no entry (no key at all), and exactly when none of the
  four rules is violated.
\<close>

theorem isValid_iff_no_errors:
  "isValid (validateExpenseForm pf d) = (validationErrors (validateExpenseForm pf d) = [])
   \<and> isValid (validateExpenseForm pf d) = (\<forall>f. \<not> rule_violated pf d f)"
  using isValid_eq [of pf d] isValid_iff [of pf d] by simp

text \<open>
  C2. For every draft the error map has an entry for exactly the violated rules: its keys
  are the violated fields, each once, in the order description, amount, category, date;
  there are as many entries as violated rules; the entry of a violated field is its message
  and a field whose rule holds has none. So one violated rule gives one entry keyed to that
  field, and several violated rules give an entry each: no rule hides another.
\<close>

theorem validation_errors_exactly_violated:
  "map fst (validationErrors (validateExpenseForm pf d)) =
     filter (rule_violated pf d) [Description, Amount, Category, Date]
   \<and> set (map fst (validationErrors (validateExpenseForm pf d))) = {f. rule_violated pf d f}
   \<and> distinct (map fst (validationErrors (validateExpenseForm pf d)))
   \<and> length (validationErrors (validateExpenseForm pf d)) = card {f. rule_violated pf d f}
   \<and> (\<forall>f. rule_violated pf d f \<longrightarrow>
          getError (validationErrors (validateExpenseForm pf d)) f = Some (message f))
   \<and> (\<forall>f. \<not> rule_violated pf d f \<longrightarrow>
          map_of (validationErrors (validateExpenseForm pf d)) f = None)"
proof -
  let ?vs = "filter (rule_violated pf d) [Description, Amount, Category, Date]"
  let ?E = "validationErrors (validateExpenseForm pf d)"
  have keys: "map fst ?E = ?vs"
    by (simp add: validationErrors_eq comp_def)
  have dist: "distinct ?vs"
    by simp
  have st: "set ?vs = {f. rule_violated pf d f}"
    by (rule violated_set)
  have "length ?E = length (map fst ?E)"
    by simp
  also have "\<dots> = card (set ?vs)"
    unfolding keys using dist by (simp only: distinct_card)
  finally have len: "length ?E = card {f. rule_violated pf d f}"
    by (simp only: st)
  have absent: "map_of ?E f = None" if "\<not> rule_violated pf d f" for f
  proof -
    from that st have "f \<notin> set (map fst ?E)"
      unfolding keys by blast
    then show ?thesis
      by (simp add: map_of_eq_None_iff)
  qed
  show ?thesis
    using keys dist st len absent by (simp add: getError_validation)
qed

theorem validation_errors_exactly_violated_witness:
  "rule_violated parseFloat_decimal
     \<lparr>description = ''  '', amount = ''-3'', category = ''Food'', date = ''2024-01-05''\<rparr> Amount
   \<and> \<not> rule_violated parseFloat_decimal
     \<lparr>description = ''  '', amount = ''-3'', category = ''Food'', date = ''2024-01-05''\<rparr> Date
   \<and> map fst (validationErrors (validateExpenseForm parseFloat_decimal
       \<lparr>description = ''  '', amount = ''-3'', category = ''Food'', date = ''2024-01-05''\<rparr>))
     = [Description, Amount]
   \<and> getError (validationErrors (validateExpenseForm parseFloat_decimal
       \<lparr>description = ''  '', amount = ''-3'', category = ''Food'', date = ''2024-01-05''\<rparr>)) Amount
     = Some ''Amount must be a positive number''
   \<and> map_of (validationErrors (validateExpenseForm parseFloat_decimal
       \<lparr>description = ''  '', amount = ''-3'', category = ''Food'', date = ''2024-01-05''\<rparr>)) Date
     = None"
  using validation_errors_exactly_violated [of parseFloat_decimal
      "\<lparr>description = ''  '', amount = ''-3'', category = ''Food'', date = ''2024-01-05''\<rparr>"]
  by (simp add: parseFloat_decimal_minus_3 trim_blank)

subsection \<open>Submission\<close>

text \<open>
  C1. Take a parser that answers NaN on the empty string, as \<open>parseFloat\<close> does. For every
  draft whose description is non-empty after trimming, whose amount text parses to a number
  greater than 0, whose category is one of the five members of the enumeration and whose
  date is non-empty, the validation pass returns an empty error map, and the submit handler
  calls the submit callback exactly once, with the trimmed description, the parsed amount,
  and the category and the date as they are; it raises no alert.
\<close>

theorem valid_draft_is_submitted:
  assumes "pf [] = NaN"
    and "trim (description d) \<noteq> []"
    and "positive (pf (amount d))"
    and "category d \<in> set ExpenseCategory"
    and "date d \<noteq> []"
  shows "validationErrors (validateExpenseForm pf d) = []
    \<and> isValid (validateExpenseForm pf d)
    \<and> onSubmitCalls (snd (handleSubmit pf today \<lparr>formData = d, errors = errs\<rparr>)) =
        [\<lparr>payload_description = trim (description d), payload_amount = pf (amount d),
          payload_category = category d, payload_date = date d\<rparr>]
    \<and> alerts (snd (handleSubmit pf today \<lparr>formData = d, errors = errs\<rparr>)) = []"
proof -
  from assms(4) have c: "category d \<noteq> []"
    by (rule category_in_enum_nonempty)
  have "\<not> rule_violated pf d f" for f
    using assms(2,3,5) c by (cases f) simp_all
  then have v: "isValid (validateExpenseForm pf d)"
    by (simp add: isValid_iff)
  then have e: "validationErrors (validateExpenseForm pf d) = []"
    by (simp add: isValid_eq)
  from v have "isValid (validateExpenseForm pf (formData \<lparr>formData = d, errors = errs\<rparr>))"
    by simp
  from handleSubmit_valid [OF assms(1) this, of today] v e show ?thesis
    by (simp add: onSubmitCalls_def alerts_def)
qed

theorem valid_draft_is_submitted_witness:
  "parseFloat_decimal [] = NaN
   \<and> trim ''  Coffee '' \<noteq> []
   \<and> positive (parseFloat_decimal ''4.50'')
   \<and> ''Food'' \<in> set ExpenseCategory
   \<and> ''2024-01-05'' \<noteq> []
   \<and> validationErrors (validateExpenseForm parseFloat_decimal
        \<lparr>description = ''  Coffee '', amount = ''4.50'', category = ''Food'',
         date = ''2024-01-05''\<rparr>) = []
   \<and> onSubmitCalls (snd (handleSubmit parseFloat_decimal ''2026-11-03''
        \<lparr>formData = \<lparr>description = ''  Coffee '', amount = ''4.50'', category = ''Food'',
                      date = ''2024-01-05''\<rparr>,
         errors = [(Amount, Some ''Amount must be a positive number'')]\<rparr>)) =
       [\<lparr>payload_description = ''Coffee'', payload_amount = Finite (9 / 2),
         payload_category = ''Food'', payload_date = ''2024-01-05''\<rparr>]"
proof -
  let ?d = "\<lparr>description = ''  Coffee '', amount = ''4.50'', category = ''Food'',
             date = ''2024-01-05''\<rparr>"
  have h1: "parseFloat_decimal [] = NaN"
    by (rule parseFloat_decimal_empty)
  have h2: "trim (description ?d) \<noteq> []"
    by (simp add: trim_Coffee)
  have h3: "positive (parseFloat_decimal (amount ?d))"
    by (simp add: parseFloat_decimal_4_50)
  have h4: "category ?d \<in> set ExpenseCategory"
    by (simp add: ExpenseCategory_def)
  have h5: "date ?d \<noteq> []"
    by simp
  from valid_draft_is_submitted [OF h1 h2 h3 h4 h5, of "''2026-11-03''"
      "[(Amount, Some ''Amount must be a positive number'')]"] h1 h2 h3 h4
  show ?thesis
    by (simp add: trim_Coffee parseFloat_decimal_4_50)
qed

text \<open>
  C3. For every draft on which at least one validation rule fails, the submit attempt
  stores the error map that the validation pass returned (which is not empty), does not
  call the submit callback, raises no alert, and leaves the draft as it is.
\<close>

theorem rejected_submit_keeps_draft:
  assumes "rule_violated pf (formData st) f"
  shows "errors (fst (handleSubmit pf today st)) =
           validationErrors (validateExpenseForm pf (formData st))
    \<and> errors (fst (handleSubmit pf today st)) \<noteq> []
    \<and> onSubmitCalls (snd (handleSubmit pf today st)) = []
    \<and> alerts (snd (handleSubmit pf today st)) = []
    \<and> formData (fst (handleSubmit pf today st)) = formData st"
proof -
  from assms have nv: "\<not> isValid (validateExpenseForm pf (formData st))"
    unfolding isValid_iff by blast
  then have "validationErrors (validateExpenseForm pf (formData st)) \<noteq> []"
    by (simp add: isValid_eq)
  with handleSubmit_invalid [OF nv, of today] show ?thesis
    by (simp add: onSubmitCalls_def alerts_def)
qed

theorem rejected_submit_keeps_draft_witness:
  "rule_violated parseFloat_decimal
     \<lparr>description = ''  '', amount = ''10'', category = ''Food'', date = ''2024-01-05''\<rparr>
     Description
   \<and> errors (fst (handleSubmit parseFloat_decimal ''2026-11-03''
        \<lparr>formData = \<lparr>description = ''  '', amount = ''10'', category = ''Food'',
                      date = ''2024-01-05''\<rparr>, errors = []\<rparr>)) =
       [(Description, Some ''Description is required'')]
   \<and> onSubmitCalls (snd (handleSubmit parseFloat_decimal ''2026-11-03''
        \<lparr>formData = \<lparr>description = ''  '', amount = ''10'', category = ''Food'',
                      date = ''2024-01-05''\<rparr>, errors = []\<rparr>)) = []
   \<and> formData (fst (handleSubmit parseFloat_decimal ''2026-11-03''
        \<lparr>formData = \<lparr>description = ''  '', amount = ''10'', category = ''Food'',
                      date = ''2024-01-05''\<rparr>, errors = []\<rparr>)) =
       \<lparr>description = ''  '', amount = ''10'', category = ''Food'', date = ''2024-01-05''\<rparr>"
proof -
  let ?d = "\<lparr>description = ''  '', amount = ''10'', category = ''Food'',
             date = ''2024-01-05''\<rparr>"
  let ?st = "\<lparr>formData = ?d, errors = []\<rparr>"
  have h: "rule_violated parseFloat_decimal (formData ?st) Description"
    by (simp add: trim_blank)
  have e: "validationErrors (validateExpenseForm parseFloat_decimal ?d) =
      [(Description, Some ''Description is required'')]"
    by (simp add: validationErrors_eq trim_blank parseFloat_decimal_10)
  from rejected_submit_keeps_draft [OF h, of "''2026-11-03''"] h e show ?thesis
    by simp
qed

text \<open>
  C7. Take a parser that answers NaN on the empty string. For every draft that the
  validation pass accepts, the guard of the first alert (empty trimmed description, empty
  amount text or empty date) is false and the guard of the second one (parsed amount at
  most 0) is false; the submit handler raises no alert and calls the submit callback.
\<close>

theorem legacy_alert_block_unreachable:
  assumes "pf [] = NaN"
    and "isValid (validateExpenseForm pf (formData st))"
  shows "\<not> (trim (description (formData st)) = [] \<or> amount (formData st) = []
            \<or> date (formData st) = [])
    \<and> \<not> le_zero (pf (amount (formData st)))
    \<and> alerts (snd (handleSubmit pf today st)) = []
    \<and> length (onSubmitCalls (snd (handleSubmit pf today st))) = 1"
proof -
  from assms(2) have nv: "\<not> rule_violated pf (formData st) f" for f
    by (simp add: isValid_iff)
  from nv [of Description] have d: "trim (description (formData st)) \<noteq> []"
    by simp
  from nv [of Amount] have p: "positive (pf (amount (formData st)))"
    by simp
  from nv [of Date] have dt: "date (formData st) \<noteq> []"
    by simp
  from p assms(1) have a: "amount (formData st) \<noteq> []"
    by auto
  from p have l: "\<not> le_zero (pf (amount (formData st)))"
    using not_positive_iff by blast
  from handleSubmit_valid [OF assms, of today] d a dt l show ?thesis
    by (simp add: onSubmitCalls_def alerts_def)
qed

theorem legacy_alert_block_unreachable_witness:
  "parseFloat_decimal [] = NaN
   \<and> isValid (validateExpenseForm parseFloat_decimal
        \<lparr>description = ''Bus'', amount = ''10'', category = ''Transportation'',
         date = ''2024-01-05''\<rparr>)
   \<and> \<not> le_zero (parseFloat_decimal ''10'')
   \<and> alerts (snd (handleSubmit parseFloat_decimal ''2026-11-03''
        \<lparr>formData = \<lparr>description = ''Bus'', amount = ''10'', category = ''Transportation'',
                      date = ''2024-01-05''\<rparr>, errors = []\<rparr>)) = []"
proof -
  let ?d = "\<lparr>description = ''Bus'', amount = ''10'', category = ''Transportation'',
             date = ''2024-01-05''\<rparr>"
  let ?st = "\<lparr>formData = ?d, errors = []\<rparr>"
  have h1: "parseFloat_decimal [] = NaN"
    by (rule parseFloat_decimal_empty)
  have v: "isValid (validateExpenseForm parseFloat_decimal ?d)"
    by (simp add: isValid_iff all_fields trim_Bus parseFloat_decimal_10)
  then have h2: "isValid (validateExpenseForm parseFloat_decimal (formData ?st))"
    by simp
  from legacy_alert_block_unreachable [OF h1 h2, of "''2026-11-03''"] h1 v show ?thesis
    by simp
qed

subsection \<open>Editing a field\<close>

lemma handleInputChange_errors_other:
  "g \<noteq> name \<Longrightarrow> map_of (errors (handleInputChange name v st)) g = map_of (errors st) g"
  by (simp add: handleInputChange_def update_conv')

lemma handleInputChange_errors_same:
  "truthy (getError (errors st) name) \<Longrightarrow>
     getError (errors (handleInputChange name v st)) name = None"
  by (simp add: handleInputChange_def getError_def update_conv')

lemma truthy_key_present:
  assumes "truthy (getError errs name)"
  shows "name \<in> set (map fst errs)"
proof (cases "map_of errs name")
  case None
  with assms show ?thesis
    by (simp add: getError_def truthy_def)
next
  case (Some v)
  then have "(name, v) \<in> set errs"
    by (rule map_of_SomeD)
  then show ?thesis
    by force
qed

text \<open>
  C8. For every field and every error map, a change event of that field leaves the entry
  of every other field as it was, and leaves no error on the edited field. When the edited
  field has an error, its entry is cleared (the key stays, with no message) and no key is
  added or removed; when it has none, the error map is not changed at all.
\<close>

theorem handleInputChange_clears_only_edited:
  "(\<forall>g. g \<noteq> name \<longrightarrow>
        map_of (errors (handleInputChange name v st)) g = map_of (errors st) g)
   \<and> \<not> truthy (getError (errors (handleInputChange name v st)) name)
   \<and> (truthy (getError (errors st) name) \<longrightarrow>
        getError (errors (handleInputChange name v st)) name = None
        \<and> map fst (errors (handleInputChange name v st)) = map fst (errors st))
   \<and> (\<not> truthy (getError (errors st) name) \<longrightarrow>
        errors (handleInputChange name v st) = errors st)"
proof -
  have other: "\<forall>g. g \<noteq> name \<longrightarrow>
      map_of (errors (handleInputChange name v st)) g = map_of (errors st) g"
    by (simp add: handleInputChange_errors_other)
  have unchanged: "errors (handleInputChange name v st) = errors st"
    if "\<not> truthy (getError (errors st) name)"
    using that by (simp add: handleInputChange_def)
  have cleared: "getError (errors (handleInputChange name v st)) name = None"
    if "truthy (getError (errors st) name)"
    using that by (rule handleInputChange_errors_same)
  have keys: "map fst (errors (handleInputChange name v st)) = map fst (errors st)"
    if "truthy (getError (errors st) name)"
  proof -
    from that have "name \<in> set (map fst (errors st))"
      by (rule truthy_key_present)
    with that show ?thesis
      by (simp add: handleInputChange_def update_keys)
  qed
  have after: "\<not> truthy (getError (errors (handleInputChange name v st)) name)"
  proof (cases "truthy (getError (errors st) name)")
    case True
    then show ?thesis
      by (simp add: cleared truthy_def)
  next
    case False
    then show ?thesis
      by (simp add: unchanged)
  qed
  from other after cleared keys unchanged show ?thesis
    by blast
qed

theorem handleInputChange_clears_only_edited_witness:
  "Date \<noteq> Amount
   \<and> truthy (getError [(Description, Some ''Description is required''),
                        (Amount, Some ''Amount must be a positive number'')] Amount)
   \<and> \<not> truthy (getError [(Description, Some ''Description is required''),
                          (Amount, Some ''Amount must be a positive number'')] Date)
   \<and> errors (handleInputChange Amount ''12''
        \<lparr>formData = \<lparr>description = [], amount = ''-3'', category = ''Food'',
                      date = ''2024-01-05''\<rparr>,
         errors = [(Description, Some ''Description is required''),
                   (Amount, Some ''Amount must be a positive number'')]\<rparr>) =
       [(Description, Some ''Description is required''), (Amount, None)]
   \<and> errors (handleInputChange Date ''2024-02-01''
        \<lparr>formData = \<lparr>description = [], amount = ''-3'', category = ''Food'',
                      date = ''2024-01-05''\<rparr>,
         errors = [(Description, Some ''Description is required''),
                   (Amount, Some ''Amount must be a positive number'')]\<rparr>) =
       [(Description, Some ''Description is required''),
        (Amount, Some ''Amount must be a positive number'')]"
proof -
  let ?E = "[(Description, Some ''Description is required''),
             (Amount, Some ''Amount must be a positive number'')]"
  let ?st = "\<lparr>formData = \<lparr>description = [], amount = ''-3'', category = ''Food'',
                            date = ''2024-01-05''\<rparr>, errors = ?E\<rparr>"
  have t: "truthy (getError (errors ?st) Amount)"
    by (simp add: getError_def truthy_def)
  have n: "\<not> truthy (getError (errors ?st) Date)"
    by (simp add: getError_def truthy_def)
  have a: "errors (handleInputChange Amount ''12'' ?st) =
      [(Description, Some ''Description is required''), (Amount, None)]"
    by (simp add: handleInputChange_def getError_def truthy_def)
  from handleInputChange_clears_only_edited [of Date "''2024-02-01''" ?st] n
  have "errors (handleInputChange Date ''2024-02-01'' ?st) = errors ?st"
    by blast
  with t n a show ?thesis
    by simp
qed

subsection \<open>After a successful submission\<close>

text \<open>
  C9. Take a parser that answers NaN on the empty string. After every submission that the
  validation pass accepts, the error map is empty and the draft is the default one: empty
  description, empty amount text, category Food (the first member of the enumeration) and
  the date of the day. When a second valid draft is then typed into the form and submitted,
  the callback has been called twice, once with the payload of each draft, in that order,
  and the draft is the default one again.
\<close>

theorem accepted_submit_resets_draft:
  assumes "pf [] = NaN"
    and "isValid (validateExpenseForm pf (formData st))"
    and "isValid (validateExpenseForm pf d2)"
  shows "errors (fst (handleSubmit pf today st)) = []
    \<and> formData (fst (handleSubmit pf today st)) =
        \<lparr>description = [], amount = [], category = hd ExpenseCategory, date = today\<rparr>
    \<and> hd ExpenseCategory = ''Food''
    \<and> onSubmitCalls (snd (handleSubmit pf today st)
          @ snd (handleSubmit pf today2 (enterDraft d2 (fst (handleSubmit pf today st))))) =
        [\<lparr>payload_description = trim (description (formData st)),
          payload_amount = pf (amount (formData st)),
          payload_category = category (formData st), payload_date = date (formData st)\<rparr>,
         \<lparr>payload_description = trim (description d2), payload_amount = pf (amount d2),
          payload_category = category d2, payload_date = date d2\<rparr>]
    \<and> fst (handleSubmit pf today2 (enterDraft d2 (fst (handleSubmit pf today st)))) =
        \<lparr>formData = \<lparr>description = [], amount = [], category = ''Food'', date = today2\<rparr>,
         errors = []\<rparr>"
proof -
  let ?s1 = "fst (handleSubmit pf today st)"
  have first: "handleSubmit pf today st =
      (\<lparr>formData = defaultFormData today, errors = []\<rparr>,
       [PreventDefault,
        OnSubmit \<lparr>payload_description = trim (description (formData st)),
                  payload_amount = pf (amount (formData st)),
                  payload_category = category (formData st),
                  payload_date = date (formData st)\<rparr>])"
    using assms(1,2) by (rule handleSubmit_valid)
  have "isValid (validateExpenseForm pf (formData (enterDraft d2 ?s1)))"
    using assms(3) by (simp add: formData_enterDraft)
  from handleSubmit_valid [OF assms(1) this, of today2]
  have second: "handleSubmit pf today2 (enterDraft d2 ?s1) =
      (\<lparr>formData = defaultFormData today2, errors = []\<rparr>,
       [PreventDefault,
        OnSubmit \<lparr>payload_description = trim (description d2), payload_amount = pf (amount d2),
                  payload_category = category d2, payload_date = date d2\<rparr>])"
    by (simp add: formData_enterDraft)
  have hd: "hd ExpenseCategory = ''Food''"
    by (simp add: ExpenseCategory_def)
  show ?thesis
    unfolding second unfolding first
    by (simp add: onSubmitCalls_def defaultFormData_def hd)
qed

theorem accepted_submit_resets_draft_witness:
  "parseFloat_decimal [] = NaN
   \<and> isValid (validateExpenseForm parseFloat_decimal
        \<lparr>description = ''  Coffee '', amount = ''4.50'', category = ''Food'',
         date = ''2024-01-05''\<rparr>)
   \<and> isValid (validateExpenseForm parseFloat_decimal
        \<lparr>description = ''Bus'', amount = ''10'', category = ''Transportation'',
         date = ''2024-01-05''\<rparr>)
   \<and> errors (fst (handleSubmit parseFloat_decimal ''2026-11-03''
        \<lparr>formData = \<lparr>description = ''  Coffee '', amount = ''4.50'', category = ''Food'',
                      date = ''2024-01-05''\<rparr>,
         errors = [(Amount, None)]\<rparr>)) = []
   \<and> formData (fst (handleSubmit parseFloat_decimal ''2026-11-03''
        \<lparr>formData = \<lparr>description = ''  Coffee '', amount = ''4.50'', category = ''Food'',
                      date = ''2024-01-05''\<rparr>,
         errors = [(Amount, None)]\<rparr>)) =
       \<lparr>description = [], amount = [], category = ''Food'', date = ''2026-11-03''\<rparr>
   \<and> onSubmitCalls (snd (handleSubmit parseFloat_decimal ''2026-11-03''
          \<lparr>formData = \<lparr>description = ''  Coffee '', amount = ''4.50'', category = ''Food'',
                        date = ''2024-01-05''\<rparr>,
           errors = [(Amount, None)]\<rparr>)
        @ snd (handleSubmit parseFloat_decimal ''2026-11-04''
           (enterDraft \<lparr>description = ''Bus'', amount = ''10'', category = ''Transportation'',
                        date = ''2024-01-05''\<rparr>
             (fst (handleSubmit parseFloat_decimal ''2026-11-03''
                \<lparr>formData = \<lparr>description = ''  Coffee '', amount = ''4.50'',
                              category = ''Food'', date = ''2024-01-05''\<rparr>,
                 errors = [(Amount, None)]\<rparr>))))) =
       [\<lparr>payload_description = ''Coffee'', payload_amount = Finite (9 / 2),
         payload_category = ''Food'', payload_date = ''2024-01-05''\<rparr>,
        \<lparr>payload_description = ''Bus'', payload_amount = Finite 10,
         payload_category = ''Transportation'', payload_date = ''2024-01-05''\<rparr>]"
proof -
  let ?d1 = "\<lparr>description = ''  Coffee '', amount = ''4.50'', category = ''Food'',
              date = ''2024-01-05''\<rparr>"
  let ?d2 = "\<lparr>description = ''Bus'', amount = ''10'', category = ''Transportation'',
              date = ''2024-01-05''\<rparr>"
  let ?st = "\<lparr>formData = ?d1, errors = [(Amount, None)]\<rparr>"
  have h1: "parseFloat_decimal [] = NaN"
    by (rule parseFloat_decimal_empty)
  have v1: "isValid (validateExpenseForm parseFloat_decimal ?d1)"
    by (simp add: isValid_iff all_fields trim_Coffee parseFloat_decimal_4_50)
  have f: "formData ?st = ?d1"
    by simp
  from v1 have h2: "isValid (validateExpenseForm parseFloat_decimal (formData ?st))"
    by (simp only: f)
  have h3: "isValid (validateExpenseForm parseFloat_decimal ?d2)"
    by (simp add: isValid_iff all_fields trim_Bus parseFloat_decimal_10)
  note T = accepted_submit_resets_draft [OF h1 h2 h3, of "''2026-11-03''" "''2026-11-04''"]
  from T have c1: "errors (fst (handleSubmit parseFloat_decimal ''2026-11-03'' ?st)) = []"
    by (rule conjunct1)
  from T have c2: "formData (fst (handleSubmit parseFloat_decimal ''2026-11-03'' ?st)) =
      \<lparr>description = [], amount = [], category = hd ExpenseCategory, date = ''2026-11-03''\<rparr>"
    by blast
  from T have c3: "hd ExpenseCategory = ''Food''"
    by blast
  from T have c4: "onSubmitCalls (snd (handleSubmit parseFloat_decimal ''2026-11-03'' ?st)
        @ snd (handleSubmit parseFloat_decimal ''2026-11-04''
           (enterDraft ?d2 (fst (handleSubmit parseFloat_decimal ''2026-11-03'' ?st))))) =
      [\<lparr>payload_description = trim (description (formData ?st)),
        payload_amount = parseFloat_decimal (amount (formData ?st)),
        payload_category = category (formData ?st), payload_date = date (formData ?st)\<rparr>,
       \<lparr>payload_description = trim (description ?d2),
        payload_amount = parseFloat_decimal (amount ?d2),
        payload_category = category ?d2, payload_date = date ?d2\<rparr>]"
    by blast
  have p1: "trim (description (formData ?st)) = ''Coffee''"
    by (simp add: trim_Coffee)
  have p2: "parseFloat_decimal (amount (formData ?st)) = Finite (9 / 2)"
    by (simp add: parseFloat_decimal_4_50)
  have p3: "category (formData ?st) = ''Food''" "date (formData ?st) = ''2024-01-05''"
    by simp_all
  have q1: "trim (description ?d2) = ''Bus''"
    by (simp add: trim_Bus)
  have q2: "parseFloat_decimal (amount ?d2) = Finite 10"
    by (simp add: parseFloat_decimal_10)
  have q3: "category ?d2 = ''Transportation''" "date ?d2 = ''2024-01-05''"
    by simp_all
  note c2' = c2 [unfolded c3]
  note c4' = c4 [unfolded p1 p2 p3 q1 q2 q3]
  from h1 v1 h3 c1 c2' c4' show ?thesis
    by (intro conjI)
qed

section \<open>Properties of the collection view\<close>

lemma length_filter_countMatching:
  "length (filter (\<lambda>e. expense_category e = sel) es) = countMatching es sel"
  by (induction es) (simp_all add: countMatching_def)

lemma renderList_count:
  "shownCount (renderList add toFixed2 s) =
     length (filteredExpenses (expenses s) (filterCategory s))"
  by (simp add: renderList_def Let_def)



text \<open>
  C4. For every collection and every filter selection: when the selection is \<open>All\<close> the
  visible subset is the collection itself, in the order supplied; otherwise it is the
  entries whose category is the selection, in their relative order, and its length is the
  number of such entries. In both cases the visible subset keeps the order of the
  collection, the list shows it, and a change of the filter leaves the collection handed
  down by the owner as it was.
\<close>

theorem filteredExpenses_visible_subset:
  "(sel = ''All'' \<longrightarrow>
      filteredExpenses es sel = es \<and> length (filteredExpenses es sel) = length es)
   \<and> (sel \<noteq> ''All'' \<longrightarrow>
      filteredExpenses es sel = filter (\<lambda>e. expense_category e = sel) es
      \<and> set (filteredExpenses es sel) = {e \<in> set es. expense_category e = sel}
      \<and> length (filteredExpenses es sel) = countMatching es sel)
   \<and> subseq (filteredExpenses es sel) es
   \<and> shownCount (renderList add toFixed2 \<lparr>expenses = es, filterCategory = sel\<rparr>) =
       length (filteredExpenses es sel)
   \<and> expenses (handleCategoryChange sel s) = expenses s
   \<and> filterCategory (handleCategoryChange sel s) = sel"
proof -
  have sub: "subseq (filteredExpenses es sel) es"
    by (simp add: filteredExpenses_def)
  have cnt: "shownCount (renderList add toFixed2 \<lparr>expenses = es, filterCategory = sel\<rparr>) =
      length (filteredExpenses es sel)"
    by (simp add: renderList_count)
  have len: "length (filteredExpenses es sel) = countMatching es sel" if "sel \<noteq> ''All''"
    using that by (simp add: filteredExpenses_def length_filter_countMatching)
  from sub cnt len show ?thesis
    by (simp add: filteredExpenses_def handleCategoryChange_def)
qed

theorem filteredExpenses_visible_subset_witness:
  "''Food'' \<noteq> ''All''
   \<and> filteredExpenses
        [\<lparr>expense_id = 1, expense_description = ''Lunch'', expense_amount = Finite (25 / 2),
          expense_category = ''Food'', expense_date = ''2024-01-05''\<rparr>,
         \<lparr>expense_id = 2, expense_description = ''Gift'', expense_amount = Finite (29 / 4),
          expense_category = ''Other'', expense_date = ''2024-01-06''\<rparr>] ''Food'' =
       [\<lparr>expense_id = 1, expense_description = ''Lunch'', expense_amount = Finite (25 / 2),
         expense_category = ''Food'', expense_date = ''2024-01-05''\<rparr>]
   \<and> countMatching
        [\<lparr>expense_id = 1, expense_description = ''Lunch'', expense_amount = Finite (25 / 2),
          expense_category = ''Food'', expense_date = ''2024-01-05''\<rparr>,
         \<lparr>expense_id = 2, expense_description = ''Gift'', expense_amount = Finite (29 / 4),
          expense_category = ''Other'', expense_date = ''2024-01-06''\<rparr>] ''Food'' = 1
   \<and> filteredExpenses
        [\<lparr>expense_id = 1, expense_description = ''Lunch'', expense_amount = Finite (25 / 2),
          expense_category = ''Food'', expense_date = ''2024-01-05''\<rparr>,
         \<lparr>expense_id = 2, expense_description = ''Gift'', expense_amount = Finite (29 / 4),
          expense_category = ''Other'', expense_date = ''2024-01-06''\<rparr>] ''All'' =
       [\<lparr>expense_id = 1, expense_description = ''Lunch'', expense_amount = Finite (25 / 2),
         expense_category = ''Food'', expense_date = ''2024-01-05''\<rparr>,
        \<lparr>expense_id = 2, expense_description = ''Gift'', expense_amount = Finite (29 / 4),
         expense_category = ''Other'', expense_date = ''2024-01-06''\<rparr>]"
proof -
  let ?e1 = "\<lparr>expense_id = 1, expense_description = ''Lunch'',
              expense_amount = Finite (25 / 2), expense_category = ''Food'',
              expense_date = ''2024-01-05''\<rparr>"
  let ?e2 = "\<lparr>expense_id = 2, expense_description = ''Gift'',
              expense_amount = Finite (29 / 4), expense_category = ''Other'',
              expense_date = ''2024-01-06''\<rparr>"
  have n: "''Food'' \<noteq> ''All''"
    by simp
  have a: "''All'' = ''All''"
    by (rule refl)
  from filteredExpenses_visible_subset [of "''Food''" "[?e1, ?e2]"] n
  have f: "filteredExpenses [?e1, ?e2] ''Food'' =
      filter (\<lambda>e. expense_category e = ''Food'') [?e1, ?e2]"
    by blast
  have f': "filter (\<lambda>e. expense_category e = ''Food'') [?e1, ?e2] = [?e1]"
    by simp
  from filteredExpenses_visible_subset [of "''All''" "[?e1, ?e2]"] a
  have g: "filteredExpenses [?e1, ?e2] ''All'' = [?e1, ?e2]"
    by blast
  have c: "countMatching [?e1, ?e2] ''Food'' = 1"
    by (simp add: countMatching_def)
  from n f [unfolded f'] c g show ?thesis
    by (intro conjI)
qed

subsection \<open>The arithmetic of the host\<close>


















lemma add64_zero_left: "round64 x = Finite x \<Longrightarrow> add64 (Finite 0) (Finite x) = Finite x"
  by simp

subsection \<open>Printing with two decimals\<close>








subsection \<open>The total of the list\<close>


















text \<open>
  C6. The enumeration has five members and the category selector of the form offers all of
  them, but the filter control of the list does not: \<open>Shopping\<close> is a member of the
  enumeration and an option of the form, and it is the one member that the filter control
  leaves out.
\<close>

theorem filter_options_omit_Shopping:
  "ExpenseCategory = [''Food'', ''Transportation'', ''Entertainment'', ''Shopping'', ''Other'']
   \<and> categoryOptions = ExpenseCategory
   \<and> ''Shopping'' \<in> set ExpenseCategory
   \<and> ''Shopping'' \<notin> set filterOptions
   \<and> filter (\<lambda>c. c \<notin> set filterOptions) ExpenseCategory = [''Shopping'']"
  by (simp add: ExpenseCategory_def categoryOptions_def filterOptions_def)

end
